theory Spec2Isabelle
  imports Complex_Main "HOL-Library.Product_Lexorder"
begin

section \<open>Decoded server responses\<close>

text \<open>
  The value of a decoded JSON payload, as Python's decoder builds it: \<open>None\<close>, a
  \<open>bool\<close>, an \<open>int\<close>, a \<open>float\<close>, a \<open>str\<close>, a \<open>list\<close> or a \<open>dict\<close> with string keys.
  A \<open>dict\<close> is kept as an association list; a lookup takes the first entry of a key.
\<close>

datatype json =
    JNull
  | JBool bool
  | JInt int
  | JFloat real
  | JStr string
  | JArr "json list"
  | JObj "(string \<times> json) list"

section \<open>Versions\<close>

text \<open>
  The object that \<open>version.parse\<close> of the \<open>packaging\<close> library returns: the epoch, the
  release segments, the pre-release (its normalised letter \<open>a\<close>, \<open>b\<close> or \<open>rc\<close> and
  its number), the numbers of the post-release and of the development release, and the
  parts of the local version, each absent or present.
\<close>

datatype local_part = LocalNum nat | LocalStr string

datatype version =
  Version nat "nat list" "(string \<times> nat) option" "nat option" "nat option"
    "local_part list option"

section \<open>Errors\<close>

text \<open>
  Every exception that an operation of \<open>Powerwall\<close> can let escape. The first three
  come out of the \<open>API\<close> object; \<open>MissingAttributeError\<close> carries the attribute name
  and the category label; \<open>UnknownEnumValueError\<close> carries the name of the enumeration
  and the rejected value; \<open>InvalidVersion\<close> carries the rejected string;
  \<open>TypeError\<close> is Python's own.
\<close>

datatype error =
    AccessDeniedError
  | APIError nat json
  | PowerwallUnreachableError
  | MissingAttributeError string "string option"
  | UnknownEnumValueError string json
  | InvalidVersion string
  | TypeError

section \<open>helpers: the attribute validator\<close>

text \<open>
  Modelled from the spec: \<open>assert_attribute\<close> of \<open>helpers.py\<close>, which is not among the
  sources. Section 4.1: look the key up; when the container is not a mapping, or the
  key is absent, or present but null, fail with a MissingAttributeError carrying the
  category label and the key name; otherwise return the value unmodified. The third
  argument is optional in the calls of \<open>__init__.py\<close>.
\<close>

fun assert_attribute :: "json \<Rightarrow> string \<Rightarrow> string option \<Rightarrow> error + json" where
  "assert_attribute (JObj response) attr url =
     (case map_of response attr of
        None \<Rightarrow> Inl (MissingAttributeError attr url)
      | Some JNull \<Rightarrow> Inl (MissingAttributeError attr url)
      | Some v \<Rightarrow> Inr v)"
| "assert_attribute _ attr url = Inl (MissingAttributeError attr url)"

section \<open>packaging.version\<close>

text \<open>
  The \<open>packaging\<close> library is not part of the repository. Its function
  \<open>version.parse\<close> and the comparison of the versions it returns are embedded here
  from the library's definition: the pattern of a version string, the normalisation of
  its groups and the comparison key. The spec (sections 3, 4.2 and 9) names the result a
  parsed semantic version and the failure on a malformed string an InvalidVersionError.
  A character stands for a code point below 256.
\<close>

text \<open>The character classes of the pattern: \<open>[0-9]\<close>, \<open>\s\<close>, the lower case that
  stands for the flag IGNORECASE, \<open>[-_\.]\<close> and \<open>[a-z0-9]\<close>.\<close>

definition digit_of :: "char \<Rightarrow> nat option" where
  "digit_of c = map_of (zip ''0123456789'' [0, 1, 2, 3, 4, 5, 6, 7, 8, 9]) c"

definition is_space :: "char \<Rightarrow> bool" where
  "is_space c =
     (c \<in> set [CHR 0x09, CHR 0x0A, CHR 0x0B, CHR 0x0C, CHR 0x0D, CHR 0x1C, CHR 0x1D, CHR 0x1E,
                CHR 0x1F, CHR 0x20, CHR 0x85, CHR 0xA0])"

definition lower :: "char \<Rightarrow> char" where
  "lower c =
     (case map_of (zip ''ABCDEFGHIJKLMNOPQRSTUVWXYZ'' ''abcdefghijklmnopqrstuvwxyz'') c of
        None \<Rightarrow> c
      | Some l \<Rightarrow> l)"

definition is_sep :: "char \<Rightarrow> bool" where
  "is_sep c = (c \<in> set ''-_.'')"

definition is_alnum :: "char \<Rightarrow> bool" where
  "is_alnum c = (c \<in> set ''abcdefghijklmnopqrstuvwxyz0123456789'')"

definition starts_with_digit :: "string \<Rightarrow> bool" where
  "starts_with_digit s = (case s of [] \<Rightarrow> False | c # cs \<Rightarrow> digit_of c \<noteq> None)"

text \<open>\<open>[0-9]*\<close> read as a number, onto the digits read so far.\<close>

fun scan_number :: "nat \<Rightarrow> string \<Rightarrow> nat \<times> string" where
  "scan_number n [] = (n, [])"
| "scan_number n (c # cs) =
     (case digit_of c of None \<Rightarrow> (n, c # cs) | Some d \<Rightarrow> scan_number (10 * n + d) cs)"

text \<open>The epoch \<open>(?:([0-9]+)!)?\<close>, 0 when absent.\<close>

definition scan_epoch :: "string \<Rightarrow> nat \<times> string" where
  "scan_epoch s =
     (if starts_with_digit s then
        (case scan_number 0 s of
           (n, []) \<Rightarrow> (0, s)
         | (n, c # cs) \<Rightarrow> if c = CHR ''!'' then (n, cs) else (0, s))
      else (0, s))"

text \<open>The release \<open>[0-9]+(?:\.[0-9]+)*\<close>, after its first digit: a dot belongs to
  the release only when a digit follows it.\<close>

fun scan_release :: "nat list \<Rightarrow> nat \<Rightarrow> string \<Rightarrow> nat list \<times> string" where
  "scan_release segs n [] = (segs @ [n], [])"
| "scan_release segs n [c] =
     (case digit_of c of None \<Rightarrow> (segs @ [n], [c]) | Some d \<Rightarrow> (segs @ [10 * n + d], []))"
| "scan_release segs n (c # c' # cs) =
     (case digit_of c of
        Some d \<Rightarrow> scan_release segs (10 * n + d) (c' # cs)
      | None \<Rightarrow>
          (case digit_of c' of
             None \<Rightarrow> (segs @ [n], c # c' # cs)
           | Some d' \<Rightarrow>
               if c = CHR ''.'' then scan_release (segs @ [n]) d' cs
               else (segs @ [n], c # c' # cs)))"

definition release_segment :: "string \<Rightarrow> (nat list \<times> string) option" where
  "release_segment s =
     (case s of
        [] \<Rightarrow> None
      | c # cs \<Rightarrow> (case digit_of c of None \<Rightarrow> None | Some d \<Rightarrow> Some (scan_release [] d cs)))"

text \<open>
  A group \<open>[-_\.]?(word|...)[-_\.]?([0-9]+)?\<close> with the normalised letter of each
  word; the number is 0 when absent. A longer word comes before its prefixes, as in the
  pattern. When no word matches, the separator is not consumed.
\<close>

definition skip_sep :: "string \<Rightarrow> string" where
  "skip_sep s = (case s of [] \<Rightarrow> [] | c # cs \<Rightarrow> if is_sep c then cs else s)"

fun strip_prefix :: "string \<Rightarrow> string \<Rightarrow> string option" where
  "strip_prefix [] s = Some s"
| "strip_prefix (p # ps) [] = None"
| "strip_prefix (p # ps) (c # cs) = (if p = c then strip_prefix ps cs else None)"

fun first_word :: "(string \<times> string) list \<Rightarrow> string \<Rightarrow> (string \<times> string) option" where
  "first_word [] s = None"
| "first_word ((w, l) # ws) s =
     (case strip_prefix w s of None \<Rightarrow> first_word ws s | Some rest \<Rightarrow> Some (l, rest))"

definition letter_version ::
  "(string \<times> string) list \<Rightarrow> string \<Rightarrow> (string \<times> nat) option \<times> string" where
  "letter_version words s =
     (case first_word words (skip_sep s) of
        None \<Rightarrow> (None, s)
      | Some (l, rest) \<Rightarrow> (case scan_number 0 (skip_sep rest) of (n, rest') \<Rightarrow> (Some (l, n), rest')))"

definition scan_pre :: "string \<Rightarrow> (string \<times> nat) option \<times> string" where
  "scan_pre s =
     letter_version
       [(''alpha'', ''a''), (''a'', ''a''), (''beta'', ''b''), (''b'', ''b''), (''preview'', ''rc''),
        (''pre'', ''rc''), (''c'', ''rc''), (''rc'', ''rc'')] s"

text \<open>The post-release is \<open>-([0-9]+)\<close> or a group of the words \<open>post\<close>, \<open>rev\<close>,
  \<open>r\<close>.\<close>

definition scan_post :: "string \<Rightarrow> nat option \<times> string" where
  "scan_post s =
     (case s of
        [] \<Rightarrow> (None, [])
      | c # cs \<Rightarrow>
          if c = CHR ''-'' \<and> starts_with_digit cs then
            (case scan_number 0 cs of (n, rest) \<Rightarrow> (Some n, rest))
          else
            (case letter_version [(''post'', ''post''), (''rev'', ''post''), (''r'', ''post'')] s of
               (p, rest) \<Rightarrow> (map_option snd p, rest)))"

definition scan_dev :: "string \<Rightarrow> nat option \<times> string" where
  "scan_dev s =
     (case letter_version [(''dev'', ''dev'')] s of (d, rest) \<Rightarrow> (map_option snd d, rest))"

text \<open>The local version \<open>\+([a-z0-9]+(?:[-_\.][a-z0-9]+)*)\<close> up to the end of the
  string, split at its separators; a part of digits only is a number.\<close>

fun split_local :: "string \<Rightarrow> string list" where
  "split_local [] = [[]]"
| "split_local (c # cs) =
     (if is_sep c then [] # split_local cs
      else (case split_local cs of [] \<Rightarrow> [[c]] | w # ws \<Rightarrow> (c # w) # ws))"

definition parse_local_part :: "string \<Rightarrow> local_part" where
  "parse_local_part part =
     (if list_all (\<lambda>c. digit_of c \<noteq> None) part then LocalNum (fst (scan_number 0 part))
      else LocalStr part)"

definition scan_local :: "string \<Rightarrow> local_part list option option" where
  "scan_local s =
     (case s of
        [] \<Rightarrow> Some None
      | c # cs \<Rightarrow>
          if c = CHR ''+'' \<and> list_all (\<lambda>part. part \<noteq> [] \<and> list_all is_alnum part) (split_local cs)
          then Some (Some (map parse_local_part (split_local cs)))
          else None)"

text \<open>The whole pattern, between \<open>^\s*\<close> and \<open>\s*$\<close>, with its optional \<open>v\<close>.\<close>

definition strip :: "string \<Rightarrow> string" where
  "strip s = rev (dropWhile is_space (rev (dropWhile is_space s)))"

definition match_version :: "string \<Rightarrow> version option" where
  "match_version vers =
     (case scan_epoch (case map lower (strip vers) of
                         [] \<Rightarrow> []
                       | c # cs \<Rightarrow> if c = CHR ''v'' then cs else c # cs) of
        (epoch, s1) \<Rightarrow>
          (case release_segment s1 of
             None \<Rightarrow> None
           | Some (release, s2) \<Rightarrow>
               (case scan_pre s2 of
                  (pre, s3) \<Rightarrow>
                    (case scan_post s3 of
                       (post, s4) \<Rightarrow>
                         (case scan_dev s4 of
                            (dev, s5) \<Rightarrow>
                              (case scan_local s5 of
                                 None \<Rightarrow> None
                               | Some local \<Rightarrow>
                                   Some (Version epoch release pre post dev local)))))))"

text \<open>\<open>version.parse\<close>: the version, or InvalidVersion with the string when the
  pattern does not match.\<close>

definition version_parse :: "string \<Rightarrow> error + version" where
  "version_parse vers =
     (case match_version vers of None \<Rightarrow> Inl (InvalidVersion vers) | Some v \<Rightarrow> Inr v)"

text \<open>
  The comparison key \<open>_cmpkey\<close>: the values \<open>Infinity\<close> and \<open>NegativeInfinity\<close> of
  the library stand in for absent parts. Tuples and strings compare as in Python, at the
  first place where they differ, a proper prefix being the smaller.
\<close>

datatype 'a ext = NegativeInfinity | Finite 'a | Infinity

fun ext_lt :: "('a \<Rightarrow> 'a \<Rightarrow> bool) \<Rightarrow> 'a ext \<Rightarrow> 'a ext \<Rightarrow> bool" where
  "ext_lt lt NegativeInfinity y = (y \<noteq> NegativeInfinity)"
| "ext_lt lt Infinity y = False"
| "ext_lt lt (Finite x) NegativeInfinity = False"
| "ext_lt lt (Finite x) (Finite y) = lt x y"
| "ext_lt lt (Finite x) Infinity = True"

fun tuple_lt :: "('a \<Rightarrow> 'a \<Rightarrow> bool) \<Rightarrow> 'a list \<Rightarrow> 'a list \<Rightarrow> bool" where
  "tuple_lt lt [] [] = False"
| "tuple_lt lt [] (y # ys) = True"
| "tuple_lt lt (x # xs) [] = False"
| "tuple_lt lt (x # xs) (y # ys) = (if x = y then tuple_lt lt xs ys else lt x y)"

definition str_lt :: "string \<Rightarrow> string \<Rightarrow> bool" where
  "str_lt = tuple_lt (\<lambda>a b. (of_char a :: nat) < of_char b)"

definition pre_lt :: "string \<times> nat \<Rightarrow> string \<times> nat \<Rightarrow> bool" where
  "pre_lt p q = (if fst p = fst q then snd p < snd q else str_lt (fst p) (fst q))"

fun local_part_lt :: "local_part \<Rightarrow> local_part \<Rightarrow> bool" where
  "local_part_lt (LocalStr a) (LocalStr b) = str_lt a b"
| "local_part_lt (LocalStr a) (LocalNum n) = True"
| "local_part_lt (LocalNum m) (LocalStr b) = False"
| "local_part_lt (LocalNum m) (LocalNum n) = (m < n)"

text \<open>
  The release loses its trailing zeros. A version with neither pre- nor post-release
  but a development release sorts before every pre-release; otherwise an absent
  pre-release sorts after every pre-release. An absent post-release sorts first, an
  absent development release last, an absent local version first. In a local version
  a string sorts before a number.
\<close>

type_synonym cmpkey =
  "nat \<times> nat list \<times> (string \<times> nat) ext \<times> nat ext \<times> nat ext \<times> local_part list ext"

fun cmpkey :: "version \<Rightarrow> cmpkey" where
  "cmpkey (Version epoch release pre post dev local) =
     (epoch,
      rev (dropWhile (\<lambda>x. x = 0) (rev release)),
      (case pre of
         None \<Rightarrow> if post = None \<and> dev \<noteq> None then NegativeInfinity else Infinity
       | Some p \<Rightarrow> Finite p),
      (case post of None \<Rightarrow> NegativeInfinity | Some n \<Rightarrow> Finite n),
      (case dev of None \<Rightarrow> Infinity | Some n \<Rightarrow> Finite n),
      (case local of None \<Rightarrow> NegativeInfinity | Some parts \<Rightarrow> Finite parts))"

text \<open>\<open>>=\<close> on two keys, which Python decides at the first component that
  differs.\<close>

fun key_ge :: "cmpkey \<Rightarrow> cmpkey \<Rightarrow> bool" where
  "key_ge (e, r, p, q, d, l) (e', r', p', q', d', l') =
     (if e \<noteq> e' then e' < e
      else if r \<noteq> r' then tuple_lt (<) r' r
      else if p \<noteq> p' then ext_lt pre_lt p' p
      else if q \<noteq> q' then ext_lt (<) q' q
      else if d \<noteq> d' then ext_lt (<) d' d
      else if l \<noteq> l' then ext_lt (tuple_lt local_part_lt) l' l
      else True)"

definition version_ge :: "version \<Rightarrow> version \<Rightarrow> bool" where
  "version_ge v w = key_ge (cmpkey v) (cmpkey w)"

text \<open>A version that is its release only, such as the one that \<open>1.46.0\<close> parses to.\<close>

abbreviation final_release :: "nat list \<Rightarrow> version" where
  "final_release release \<equiv> Version 0 release None None None None"

section \<open>The API object and the session\<close>

text \<open>
  The methods of \<open>self._api\<close> that \<open>__init__.py\<close> calls, with their arguments.
\<close>

datatype api_call =
    API_login string string string bool
  | API_logout
  | API_get_sitemater_run
  | API_get_sitemaster_stop
  | API_get_system_status_soe
  | API_get_sitemaster
  | API_get_meters_aggregates
  | API_get_system_status_grid_status
  | API_get_site_info
  | API_post_site_info_site_name json
  | API_get_status
  | API_get_device_type
  | API_get_powerwalls
  | API_get_operation
  | API_get_solars
  | API_get_config

text \<open>
  A member of one of the enumerations of \<open>const.py\<close>: the name of its class and its
  value. What \<open>self._pin_version\<close> can hold besides \<open>None\<close>: the constructor stores
  its argument, a \<open>str\<close>, as it is; \<open>pin_version\<close> stores the parsed version.
\<close>

datatype enum_member = Member string string

datatype pin = PinStr string | PinVer version

text \<open>
  What \<open>__init__.py\<close> takes from modules that are not among the sources, as parameters:
  the behaviour of the \<open>API\<close> object on a state \<open>'s\<close> of its own (the cookie jar and the
  device behind it), the values of the enumerations, the value of \<open>User.CUSTOMER\<close>, and
  the \<open>device_type\<close> property of a \<open>PowerwallStatus\<close>.
\<close>

record 's deps =
  api :: "api_call \<Rightarrow> 's \<Rightarrow> (error + json) \<times> 's"
  GridStatus_values :: "string list"
  OperationMode_values :: "string list"
  DeviceType_values :: "string list"
  User_CUSTOMER_value :: string
  PowerwallStatus_device_type :: "json \<Rightarrow> error + enum_member"

text \<open>
  The \<open>Powerwall\<close> object: its attribute \<open>_pin_version\<close>, the state behind its
  attribute \<open>_api\<close>, and a record of the calls made on \<open>_api\<close> so far, oldest first (the
  record is not in the source: it is what the statements about requests read).
\<close>

record 's powerwall =
  pin_version_attr :: "pin option"
  api_state :: 's
  requests :: "api_call list"

definition call :: "'s deps \<Rightarrow> api_call \<Rightarrow> 's powerwall \<Rightarrow> (error + json) \<times> 's powerwall" where
  "call D c s =
     (case api D c (api_state s) of
        (r, a) \<Rightarrow> (r, s\<lparr>api_state := a, requests := requests s @ [c]\<rparr>))"

text \<open>What a method does with the response of its one request; an exception of the
  request passes through.\<close>

definition after :: "(json \<Rightarrow> error + 'a) \<Rightarrow> (error + json) \<times> 'st \<Rightarrow> (error + 'a) \<times> 'st" where
  "after f p = (case p of (Inl e, s) \<Rightarrow> (Inl e, s) | (Inr r, s) \<Rightarrow> (f r, s))"

definition Powerwall_init :: "string option \<Rightarrow> 's \<Rightarrow> 's powerwall" where
  "Powerwall_init pin_version a =
     \<lparr>pin_version_attr = map_option PinStr pin_version, api_state = a, requests = []\<rparr>"

definition get_charge :: "'s deps \<Rightarrow> 's powerwall \<Rightarrow> (error + json) \<times> 's powerwall" where
  "get_charge D s =
     after (\<lambda>r. assert_attribute r ''percentage'' (Some ''soe''))
       (call D API_get_system_status_soe s)"

section \<open>responses and const\<close>

text \<open>
  Modelled from the spec: the response classes of \<open>responses.py\<close>, which is not among
  the sources. Section 2: a response model wraps a raw mapping and exposes typed
  accessors. Constructing one keeps the mapping as it is.
\<close>

datatype response =
    LoginResponse json
  | SiteMaster json
  | MetersAggregates json
  | SiteInfo json
  | PowerwallStatus json
  | Solar json

fun raw :: "response \<Rightarrow> json" where
  "raw (LoginResponse r) = r"
| "raw (SiteMaster r) = r"
| "raw (MetersAggregates r) = r"
| "raw (SiteInfo r) = r"
| "raw (PowerwallStatus r) = r"
| "raw (Solar r) = r"

text \<open>
  Modelled from the spec: calling an enumeration class of \<open>const.py\<close> (not among the
  sources) on a value. Section 3: the enumerations are fixed, closed sets of string
  values, and a value outside the known set produces an explicit unknown-value failure.
\<close>

definition enum_of :: "string \<Rightarrow> string list \<Rightarrow> json \<Rightarrow> error + enum_member" where
  "enum_of cls known v =
     (case v of
        JStr x \<Rightarrow> if x \<in> set known then Inr (Member cls x) else Inl (UnknownEnumValueError cls v)
      | _ \<Rightarrow> Inl (UnknownEnumValueError cls v))"

text \<open>What a Python \<open>for\<close> runs over: the items of a list, the keys of a dict, the
  characters of a string; anything else is not iterable.\<close>

fun py_iter :: "json \<Rightarrow> error + json list" where
  "py_iter (JArr xs) = Inr xs"
| "py_iter (JObj kvs) = Inr (map (\<lambda>kv. JStr (fst kv)) kvs)"
| "py_iter (JStr cs) = Inr (map (\<lambda>c. JStr [c]) cs)"
| "py_iter _ = Inl TypeError"

section \<open>The operations of Powerwall\<close>

text \<open>The first argument of \<open>login_as\<close>: a member of \<open>User\<close> or a plain string.\<close>

datatype user_arg = UserMember enum_member | UserStr string

fun user_value :: "user_arg \<Rightarrow> string" where
  "user_value (UserMember (Member cls v)) = v"
| "user_value (UserStr u) = u"

definition User_CUSTOMER :: "'s deps \<Rightarrow> enum_member" where
  "User_CUSTOMER D = Member ''User'' (User_CUSTOMER_value D)"

definition login_as ::
  "'s deps \<Rightarrow> user_arg \<Rightarrow> string \<Rightarrow> string \<Rightarrow> bool \<Rightarrow> 's powerwall \<Rightarrow> (error + response) \<times> 's powerwall" where
  "login_as D user email password force_sm_off s =
     after (\<lambda>r. Inr (LoginResponse r))
       (call D (API_login (user_value user) email password force_sm_off) s)"

definition login ::
  "'s deps \<Rightarrow> string \<Rightarrow> string \<Rightarrow> bool \<Rightarrow> 's powerwall \<Rightarrow> (error + response) \<times> 's powerwall" where
  "login D email password force_sm_off s =
     login_as D (UserMember (User_CUSTOMER D)) email password force_sm_off s"

definition logout :: "'s deps \<Rightarrow> 's powerwall \<Rightarrow> (error + unit) \<times> 's powerwall" where
  "logout D s = after (\<lambda>r. Inr ()) (call D API_logout s)"

definition run :: "'s deps \<Rightarrow> 's powerwall \<Rightarrow> (error + unit) \<times> 's powerwall" where
  "run D s = after (\<lambda>r. Inr ()) (call D API_get_sitemater_run s)"

definition stop :: "'s deps \<Rightarrow> 's powerwall \<Rightarrow> (error + unit) \<times> 's powerwall" where
  "stop D s = after (\<lambda>r. Inr ()) (call D API_get_sitemaster_stop s)"

definition get_sitemaster :: "'s deps \<Rightarrow> 's powerwall \<Rightarrow> (error + response) \<times> 's powerwall" where
  "get_sitemaster D s = after (\<lambda>r. Inr (SiteMaster r)) (call D API_get_sitemaster s)"

definition get_meters :: "'s deps \<Rightarrow> 's powerwall \<Rightarrow> (error + response) \<times> 's powerwall" where
  "get_meters D s = after (\<lambda>r. Inr (MetersAggregates r)) (call D API_get_meters_aggregates s)"

definition get_grid_status :: "'s deps \<Rightarrow> 's powerwall \<Rightarrow> (error + enum_member) \<times> 's powerwall" where
  "get_grid_status D s =
     after (\<lambda>r. case assert_attribute r ''grid_status'' (Some ''grid_status'') of
                  Inl e \<Rightarrow> Inl e
                | Inr status \<Rightarrow> enum_of ''GridStatus'' (GridStatus_values D) status)
       (call D API_get_system_status_grid_status s)"

definition is_grid_services_active :: "'s deps \<Rightarrow> 's powerwall \<Rightarrow> (error + json) \<times> 's powerwall" where
  "is_grid_services_active D s =
     after (\<lambda>r. assert_attribute r ''grid_services_active'' (Some ''grid_status''))
       (call D API_get_system_status_grid_status s)"

definition get_site_info :: "'s deps \<Rightarrow> 's powerwall \<Rightarrow> (error + response) \<times> 's powerwall" where
  "get_site_info D s = after (\<lambda>r. Inr (SiteInfo r)) (call D API_get_site_info s)"

definition set_site_name :: "'s deps \<Rightarrow> string \<Rightarrow> 's powerwall \<Rightarrow> (error + json) \<times> 's powerwall" where
  "set_site_name D site_name s =
     call D (API_post_site_info_site_name (JObj [(''site_name'', JStr site_name)])) s"

definition get_status :: "'s deps \<Rightarrow> 's powerwall \<Rightarrow> (error + response) \<times> 's powerwall" where
  "get_status D s = after (\<lambda>r. Inr (PowerwallStatus r)) (call D API_get_status s)"

text \<open>The two branches of \<open>get_device_type\<close>: the one that reads the status, and the
  one that asks the endpoint of the device type.\<close>

definition device_type_live :: "'s deps \<Rightarrow> 's powerwall \<Rightarrow> (error + enum_member) \<times> 's powerwall" where
  "device_type_live D s =
     (case get_status D s of
        (Inl e, s') \<Rightarrow> (Inl e, s')
      | (Inr st, s') \<Rightarrow> (PowerwallStatus_device_type D (raw st), s'))"

definition device_type_legacy :: "'s deps \<Rightarrow> 's powerwall \<Rightarrow> (error + enum_member) \<times> 's powerwall" where
  "device_type_legacy D s =
     after (\<lambda>r. case assert_attribute r ''device_type'' (Some ''device_type'') of
                  Inl e \<Rightarrow> Inl e
                | Inr v \<Rightarrow> enum_of ''DeviceType'' (DeviceType_values D) v)
       (call D API_get_device_type s)"

text \<open>\<open>self._pin_version >= version.parse("1.46.0")\<close>: a \<open>str\<close> and a version do not
  compare.\<close>

definition pin_ge :: "pin \<Rightarrow> version \<Rightarrow> error + bool" where
  "pin_ge p t = (case p of PinStr v \<Rightarrow> Inl TypeError | PinVer v \<Rightarrow> Inr (version_ge v t))"

definition get_device_type :: "'s deps \<Rightarrow> 's powerwall \<Rightarrow> (error + enum_member) \<times> 's powerwall" where
  "get_device_type D s =
     (case pin_version_attr s of
        None \<Rightarrow> device_type_live D s
      | Some p \<Rightarrow>
          (case version_parse ''1.46.0'' of
             Inl e \<Rightarrow> (Inl e, s)
           | Inr t \<Rightarrow>
               (case pin_ge p t of
                  Inl e \<Rightarrow> (Inl e, s)
                | Inr b \<Rightarrow> if b then device_type_live D s else device_type_legacy D s)))"

fun serial_numbers :: "json list \<Rightarrow> error + json list" where
  "serial_numbers [] = Inr []"
| "serial_numbers (powerwall # rest) =
     (case assert_attribute powerwall ''PackageSerialNumber'' None of
        Inl e \<Rightarrow> Inl e
      | Inr v \<Rightarrow> (case serial_numbers rest of Inl e \<Rightarrow> Inl e | Inr vs \<Rightarrow> Inr (v # vs)))"

definition get_serial_numbers :: "'s deps \<Rightarrow> 's powerwall \<Rightarrow> (error + json list) \<times> 's powerwall" where
  "get_serial_numbers D s =
     after (\<lambda>r. case assert_attribute r ''powerwalls'' (Some ''powerwalls'') of
                  Inl e \<Rightarrow> Inl e
                | Inr powerwalls \<Rightarrow>
                    (case py_iter powerwalls of Inl e \<Rightarrow> Inl e | Inr ps \<Rightarrow> serial_numbers ps))
       (call D API_get_powerwalls s)"

definition get_operation_mode :: "'s deps \<Rightarrow> 's powerwall \<Rightarrow> (error + enum_member) \<times> 's powerwall" where
  "get_operation_mode D s =
     after (\<lambda>r. case assert_attribute r ''real_mode'' (Some ''operation'') of
                  Inl e \<Rightarrow> Inl e
                | Inr operation_mode \<Rightarrow>
                    enum_of ''OperationMode'' (OperationMode_values D) operation_mode)
       (call D API_get_operation s)"

definition get_backup_reserved_percentage :: "'s deps \<Rightarrow> 's powerwall \<Rightarrow> (error + json) \<times> 's powerwall" where
  "get_backup_reserved_percentage D s =
     after (\<lambda>r. assert_attribute r ''backup_reserved_percent'' (Some ''operation''))
       (call D API_get_operation s)"

definition get_solars :: "'s deps \<Rightarrow> 's powerwall \<Rightarrow> (error + response list) \<times> 's powerwall" where
  "get_solars D s =
     after (\<lambda>r. case py_iter r of Inl e \<Rightarrow> Inl e | Inr solars \<Rightarrow> Inr (map Solar solars))
       (call D API_get_solars s)"

definition get_vin :: "'s deps \<Rightarrow> 's powerwall \<Rightarrow> (error + json) \<times> 's powerwall" where
  "get_vin D s = after (\<lambda>r. assert_attribute r ''vin'' (Some ''config'')) (call D API_get_config s)"

definition get_version :: "'s deps \<Rightarrow> 's powerwall \<Rightarrow> (error + json) \<times> 's powerwall" where
  "get_version D s =
     after (\<lambda>r. assert_attribute r ''version'' (Some ''status'')) (call D API_get_status s)"

definition pin_version :: "string \<Rightarrow> 's powerwall \<Rightarrow> (error + unit) \<times> 's powerwall" where
  "pin_version vers s =
     (case version_parse vers of
        Inl e \<Rightarrow> (Inl e, s)
      | Inr v \<Rightarrow> (Inr (), s\<lparr>pin_version_attr := Some (PinVer v)\<rparr>))"

text \<open>\<open>get_version\<close> hands over whatever the status holds under \<open>version\<close>;
  \<open>version.parse\<close> takes a \<open>str\<close> only.\<close>

definition detect_and_pin_version :: "'s deps \<Rightarrow> 's powerwall \<Rightarrow> (error + pin option) \<times> 's powerwall" where
  "detect_and_pin_version D s =
     (case get_version D s of
        (Inl e, s') \<Rightarrow> (Inl e, s')
      | (Inr v, s') \<Rightarrow>
          (case v of
             JStr vers \<Rightarrow>
               (case pin_version vers s' of
                  (Inl e, s'') \<Rightarrow> (Inl e, s'')
                | (Inr u, s'') \<Rightarrow> (Inr (pin_version_attr s''), s''))
           | _ \<Rightarrow> (Inl TypeError, s')))"

definition get_pinned_version :: "'s powerwall \<Rightarrow> pin option \<times> 's powerwall" where
  "get_pinned_version s = (pin_version_attr s, s)"

section \<open>Every public operation, as one step of the session\<close>

text \<open>
  The operations of \<open>Powerwall\<close> that are neither the constructor nor \<open>pin_version\<close> nor
  \<open>detect_and_pin_version\<close>, with their arguments, and the session that each leaves
  behind, whether it returns or raises.
\<close>

datatype operation =
    Op_login string string bool
  | Op_login_as user_arg string string bool
  | Op_logout
  | Op_run
  | Op_stop
  | Op_get_charge
  | Op_get_sitemaster
  | Op_get_meters
  | Op_get_grid_status
  | Op_is_grid_services_active
  | Op_get_site_info
  | Op_set_site_name string
  | Op_get_status
  | Op_get_device_type
  | Op_get_serial_numbers
  | Op_get_operation_mode
  | Op_get_backup_reserved_percentage
  | Op_get_solars
  | Op_get_vin
  | Op_get_version
  | Op_get_pinned_version

fun perform :: "'s deps \<Rightarrow> operation \<Rightarrow> 's powerwall \<Rightarrow> 's powerwall" where
  "perform D (Op_login email password force_sm_off) s = snd (login D email password force_sm_off s)"
| "perform D (Op_login_as user email password force_sm_off) s =
     snd (login_as D user email password force_sm_off s)"
| "perform D Op_logout s = snd (logout D s)"
| "perform D Op_run s = snd (run D s)"
| "perform D Op_stop s = snd (stop D s)"
| "perform D Op_get_charge s = snd (get_charge D s)"
| "perform D Op_get_sitemaster s = snd (get_sitemaster D s)"
| "perform D Op_get_meters s = snd (get_meters D s)"
| "perform D Op_get_grid_status s = snd (get_grid_status D s)"
| "perform D Op_is_grid_services_active s = snd (is_grid_services_active D s)"
| "perform D Op_get_site_info s = snd (get_site_info D s)"
| "perform D (Op_set_site_name site_name) s = snd (set_site_name D site_name s)"
| "perform D Op_get_status s = snd (get_status D s)"
| "perform D Op_get_device_type s = snd (get_device_type D s)"
| "perform D Op_get_serial_numbers s = snd (get_serial_numbers D s)"
| "perform D Op_get_operation_mode s = snd (get_operation_mode D s)"
| "perform D Op_get_backup_reserved_percentage s = snd (get_backup_reserved_percentage D s)"
| "perform D Op_get_solars s = snd (get_solars D s)"
| "perform D Op_get_vin s = snd (get_vin D s)"
| "perform D Op_get_version s = snd (get_version D s)"
| "perform D Op_get_pinned_version s = snd (get_pinned_version s)"

section \<open>api: logout\<close>

text \<open>
  Modelled from the spec: the \<open>logout\<close> method of the \<open>API\<close> class of \<open>api.py\<close>, which is
  not among the sources, and the device that answers it. Section 4.3: logout issues
  a request that invalidates the server-side session, and the server answers success
  or a benign not-logged-in status either way; section 5: a request that does not get
  through surfaces as PowerwallUnreachableError. The state behind the \<open>API\<close> object is
  whether the session is authenticated.
\<close>

datatype logout_reply = LoggedOut | NotLoggedIn

text \<open>
  Modelled from the spec: the answer of the device to a logout request (section 4.3),
  success for a session that is logged in and the benign status otherwise; the session
  is logged out afterwards.
\<close>

definition server_logout :: "bool \<Rightarrow> logout_reply \<times> bool" where
  "server_logout authenticated = (if authenticated then LoggedOut else NotLoggedIn, False)"

text \<open>
  Modelled from the spec: \<open>API.logout\<close> (sections 4.3 and 5). Either answer of the
  device completes the call; a request that does not reach the device raises.
\<close>

definition API_logout_spec :: "bool \<Rightarrow> bool \<Rightarrow> (error + json) \<times> bool" where
  "API_logout_spec reachable authenticated =
     (if reachable then
        (case server_logout authenticated of
           (LoggedOut, a) \<Rightarrow> (Inr JNull, a)
         | (NotLoggedIn, a) \<Rightarrow> (Inr JNull, a))
      else (Inl PowerwallUnreachableError, authenticated))"

definition logout_deps :: "bool \<Rightarrow> bool deps \<Rightarrow> bool deps" where
  "logout_deps reachable D =
     D\<lparr>api := (\<lambda>c a. if c = API_logout then API_logout_spec reachable a else api D c a)\<rparr>"

section \<open>Example devices\<close>

text \<open>
  A device without state of its own that answers every call with a fixed payload: its
  status reports the given firmware version and, when one is given, a device type; its
  endpoint of the device type reports \<open>hec\<close>; its state of energy is 87.5.
\<close>

definition example_status :: "string \<Rightarrow> string option \<Rightarrow> json" where
  "example_status vers dt =
     JObj ((''version'', JStr vers) #
           (case dt of None \<Rightarrow> [] | Some d \<Rightarrow> [(''device_type'', JStr d)]))"

definition example_api :: "string \<Rightarrow> string option \<Rightarrow> api_call \<Rightarrow> unit \<Rightarrow> (error + json) \<times> unit" where
  "example_api vers dt c a =
     (if c = API_get_status then (Inr (example_status vers dt), a)
      else if c = API_get_device_type then (Inr (JObj [(''device_type'', JStr ''hec'')]), a)
      else if c = API_get_system_status_soe then (Inr (JObj [(''percentage'', JFloat 87.5)]), a)
      else if c = API_get_system_status_grid_status then
        (Inr (JObj [(''grid_status'', JStr ''SystemGridUnheardOf'')]), a)
      else if c = API_get_operation then (Inr (JObj [(''real_mode'', JStr ''party'')]), a)
      else (Inr (JObj []), a))"

definition example_deps :: "string \<Rightarrow> string option \<Rightarrow> unit deps" where
  "example_deps vers dt =
     \<lparr>api = example_api vers dt,
      GridStatus_values = [''SystemGridConnected'', ''SystemIslandedActive''],
      OperationMode_values = [''backup'', ''self_consumption''],
      DeviceType_values = [''hec'', ''teg''],
      User_CUSTOMER_value = ''customer'',
      PowerwallStatus_device_type =
        (\<lambda>r. case assert_attribute r ''device_type'' None of
                Inl e \<Rightarrow> Inl e
              | Inr v \<Rightarrow> enum_of ''DeviceType'' [''hec'', ''teg''] v)\<rparr>"

text \<open>A device whose state of energy has no \<open>percentage\<close>.\<close>

definition empty_deps :: "unit deps" where
  "empty_deps = (example_deps ''1.46.0'' None)\<lparr>api := (\<lambda>c a. (Inr (JObj []), a))\<rparr>"

text \<open>The example device with 1.45.9, where \<open>hec\<close> is not a known device type.\<close>

definition strict_deps :: "unit deps" where
  "strict_deps = (example_deps ''1.45.9'' None)\<lparr>DeviceType_values := [''teg'']\<rparr>"

text \<open>A device behind the logout of the \<open>API\<close> object; its other answers are empty
  mappings.\<close>

definition session_deps :: "bool deps" where
  "session_deps =
     \<lparr>api = (\<lambda>c a. (Inr (JObj []), a)),
      GridStatus_values = [],
      OperationMode_values = [],
      DeviceType_values = [],
      User_CUSTOMER_value = ''customer'',
      PowerwallStatus_device_type = (\<lambda>r. Inl (MissingAttributeError ''device_type'' None))\<rparr>"

section \<open>Basic facts\<close>

lemmas version_parse_eval =
  version_parse_def match_version_def strip_def is_space_def lower_def scan_epoch_def
  starts_with_digit_def digit_of_def release_segment_def scan_pre_def scan_post_def
  scan_dev_def letter_version_def skip_sep_def is_sep_def scan_local_def is_alnum_def
  parse_local_part_def

lemma version_parse_threshold: "version_parse ''1.46.0'' = Inr (final_release [1, 46, 0])"
  by (simp add: version_parse_eval)

lemma cmpkey_threshold:
  "cmpkey (final_release [1, 46, 0]) =
     (0, [1, 46], Infinity, NegativeInfinity, Infinity, NegativeInfinity)"
  by simp

text \<open>
  What it takes to be at least 1.46.0: a later epoch, or the same epoch and a later
  release, or the same release without a pre-release and without a development release
  of the release itself.
\<close>

lemma version_ge_threshold:
  "version_ge (Version e r p q d l) (final_release [1, 46, 0]) \<longleftrightarrow>
     0 < e \<or>
     (e = 0 \<and>
      (tuple_lt (<) [1, 46] (rev (dropWhile (\<lambda>x. x = 0) (rev r))) \<or>
       (rev (dropWhile (\<lambda>x. x = 0) (rev r)) = [1, 46] \<and> p = None \<and> (q \<noteq> None \<or> d = None))))"
  unfolding version_ge_def cmpkey_threshold
  by (cases p; cases q; cases d; cases l) auto

text \<open>On versions of three release segments and nothing else, the comparison with
  1.46.0 is the lexicographic order of the triples.\<close>

lemma version_ge_threshold_triple:
  "version_ge (final_release [a, b, c]) (final_release [1, 46, 0]) \<longleftrightarrow> (1, 46, 0) \<le> (a, b, c)"
  unfolding version_ge_threshold
  by (auto simp: less_eq_prod_def)

lemma version_parse_error: "version_parse vers = Inl e \<Longrightarrow> e = InvalidVersion vers"
  by (auto simp: version_parse_def split: option.splits)

lemma call_pin [simp]: "pin_version_attr (snd (call D c s)) = pin_version_attr s"
  by (simp add: call_def split: prod.splits)

lemma call_requests [simp]: "requests (snd (call D c s)) = requests s @ [c]"
  by (simp add: call_def split: prod.splits)

lemma after_snd [simp]: "snd (after f p) = snd p"
  by (simp add: after_def split: prod.splits sum.splits)

lemma device_type_live_snd [simp]: "snd (device_type_live D s) = snd (call D API_get_status s)"
  by (simp add: device_type_live_def get_status_def after_def split: prod.splits sum.splits)

lemma device_type_legacy_snd [simp]:
  "snd (device_type_legacy D s) = snd (call D API_get_device_type s)"
  by (simp add: device_type_legacy_def)

lemma get_device_type_None:
  "pin_version_attr s = None \<Longrightarrow> get_device_type D s = device_type_live D s"
  by (simp add: get_device_type_def)

lemma get_device_type_PinVer:
  "pin_version_attr s = Some (PinVer P) \<Longrightarrow>
   get_device_type D s =
     (if version_ge P (final_release [1, 46, 0]) then device_type_live D s else device_type_legacy D s)"
  by (simp add: get_device_type_def version_parse_threshold pin_ge_def)

lemma get_device_type_PinStr:
  "pin_version_attr s = Some (PinStr V) \<Longrightarrow> get_device_type D s = (Inl TypeError, s)"
  by (simp add: get_device_type_def version_parse_threshold pin_ge_def)

lemma get_device_type_pin: "pin_version_attr (snd (get_device_type D s)) = pin_version_attr s"
  by (simp add: get_device_type_def version_parse_threshold pin_ge_def
      split: option.splits pin.splits)

lemma pin_version_ok:
  "version_parse V = Inr P \<Longrightarrow>
   pin_version V s = (Inr (), s\<lparr>pin_version_attr := Some (PinVer P)\<rparr>)"
  by (simp add: pin_version_def)

lemma perform_pin: "pin_version_attr (perform D op s) = pin_version_attr s"
  by (cases op)
     (simp_all add: login_def login_as_def logout_def run_def stop_def get_charge_def
        get_sitemaster_def get_meters_def get_grid_status_def is_grid_services_active_def
        get_site_info_def set_site_name_def get_status_def get_device_type_pin
        get_serial_numbers_def get_operation_mode_def get_backup_reserved_percentage_def
        get_solars_def get_vin_def get_version_def get_pinned_version_def)

section \<open>The version gate of get_device_type\<close>

lemma device_type_live_fst:
  "fst (device_type_live D s) =
     (case fst (call D API_get_status s) of
        Inl e \<Rightarrow> Inl e
      | Inr r \<Rightarrow> PowerwallStatus_device_type D r)"
  by (simp add: device_type_live_def get_status_def after_def split: prod.splits sum.splits)

lemma device_type_legacy_fst:
  "fst (device_type_legacy D s) =
     (case fst (call D API_get_device_type s) of
        Inl e \<Rightarrow> Inl e
      | Inr r \<Rightarrow>
          (case assert_attribute r ''device_type'' (Some ''device_type'') of
             Inl e \<Rightarrow> Inl e
           | Inr v \<Rightarrow> enum_of ''DeviceType'' (DeviceType_values D) v))"
  by (simp add: device_type_legacy_def after_def split: prod.splits sum.splits)

text \<open>
  Claim C1 says that a pinned version takes the live branch if and only if its
  major.minor.patch is at least 1.46.0. The pin 1.46.0rc1 parses to a version of
  release 1.46.0, and (1, 46, 0) is at least (1, 46, 0), yet the comparison of the
  library puts a pre-release before its release: \<open>get_device_type\<close> takes the legacy
  branch, asks the endpoint of the device type and returns what that endpoint holds.
\<close>

theorem prerelease_pin_counterexample:
  "version_parse ''1.46.0rc1'' = Inr (Version 0 [1, 46, 0] (Some (''rc'', 1)) None None None) \<and>
   (1 :: nat, 46 :: nat, 0 :: nat) \<le> (1, 46, 0) \<and>
   get_device_type (example_deps ''1.46.0'' (Some ''teg''))
       (snd (pin_version ''1.46.0rc1'' (Powerwall_init None ()))) =
     device_type_legacy (example_deps ''1.46.0'' (Some ''teg''))
       (snd (pin_version ''1.46.0rc1'' (Powerwall_init None ()))) \<and>
   requests (snd (get_device_type (example_deps ''1.46.0'' (Some ''teg''))
       (snd (pin_version ''1.46.0rc1'' (Powerwall_init None ()))))) = [API_get_device_type] \<and>
   fst (get_device_type (example_deps ''1.46.0'' (Some ''teg''))
       (snd (pin_version ''1.46.0rc1'' (Powerwall_init None ())))) =
     Inr (Member ''DeviceType'' ''hec'')"
proof -
  let ?D = "example_deps ''1.46.0'' (Some ''teg'')"
  let ?P = "Version 0 [1, 46, 0] (Some (''rc'', 1)) None None None"
  let ?s = "\<lparr>pin_version_attr = Some (PinVer ?P), api_state = (), requests = []\<rparr>"
  have p: "version_parse ''1.46.0rc1'' = Inr ?P"
    by (simp add: version_parse_eval)
  have s: "snd (pin_version ''1.46.0rc1'' (Powerwall_init None ())) = ?s"
    by (simp add: pin_version_ok [OF p] Powerwall_init_def)
  have lt: "\<not> version_ge ?P (final_release [1, 46, 0])"
    unfolding version_ge_threshold by simp
  have pin: "pin_version_attr ?s = Some (PinVer ?P)"
    by simp
  have g: "get_device_type ?D ?s = device_type_legacy ?D ?s"
    unfolding get_device_type_PinVer [OF pin] using lt by simp
  have r: "requests (snd (device_type_legacy ?D ?s)) = [API_get_device_type]"
    by simp
  have f: "fst (device_type_legacy ?D ?s) = Inr (Member ''DeviceType'' ''hec'')"
    by (simp add: device_type_legacy_def after_def call_def example_deps_def example_api_def
        enum_of_def)
  show ?thesis
    unfolding s g using p r f by (simp add: less_eq_prod_def)
qed

text \<open>
  Claim C1, amended. Let the pin be set by \<open>pin_version\<close> on a string that parses to the
  version P. Then \<open>get_device_type\<close> takes the live branch, which reads the device type
  from the status response, if and only if P is at least 1.46.0 in the ordering of the
  version library, and the legacy branch, which asks the endpoint of the device type,
  otherwise. In that ordering P is at least 1.46.0 when its epoch is later, or, with
  epoch 0, when its release without trailing zeros is later than 1.46, or is 1.46 and P
  has no pre-release and is not a development release of the release itself; so a
  pre-release of 1.46.0 is below 1.46.0. When P is a plain major.minor.patch, this is
  the lexicographic order of the triples. Either way the call issues exactly one
  request, the one of its branch: no request is spent on probing the version.
\<close>

theorem get_device_type_pinned:
  assumes "version_parse V = Inr P"
  shows "(let s' = snd (pin_version V s) in
     if version_ge P (final_release [1, 46, 0])
     then get_device_type D s' = device_type_live D s' \<and>
          requests (snd (get_device_type D s')) = requests s' @ [API_get_status] \<and>
          fst (get_device_type D s') =
            (case fst (call D API_get_status s') of
               Inl e \<Rightarrow> Inl e
             | Inr r \<Rightarrow> PowerwallStatus_device_type D r)
     else get_device_type D s' = device_type_legacy D s' \<and>
          requests (snd (get_device_type D s')) = requests s' @ [API_get_device_type] \<and>
          fst (get_device_type D s') =
            (case fst (call D API_get_device_type s') of
               Inl e \<Rightarrow> Inl e
             | Inr r \<Rightarrow>
                 (case assert_attribute r ''device_type'' (Some ''device_type'') of
                    Inl e \<Rightarrow> Inl e
                  | Inr v \<Rightarrow> enum_of ''DeviceType'' (DeviceType_values D) v))) \<and>
   (\<forall>e r p q d l. P = Version e r p q d l \<longrightarrow>
      (version_ge P (final_release [1, 46, 0]) \<longleftrightarrow>
         0 < e \<or>
         (e = 0 \<and>
          (tuple_lt (<) [1, 46] (rev (dropWhile (\<lambda>x. x = 0) (rev r))) \<or>
           (rev (dropWhile (\<lambda>x. x = 0) (rev r)) = [1, 46] \<and> p = None \<and>
            (q \<noteq> None \<or> d = None)))))) \<and>
   (\<forall>a b c. P = final_release [a, b, c] \<longrightarrow>
      (version_ge P (final_release [1, 46, 0]) \<longleftrightarrow> (1, 46, 0) \<le> (a, b, c)))"
proof (intro conjI allI impI)
  let ?s = "s\<lparr>pin_version_attr := Some (PinVer P)\<rparr>"
  have s': "snd (pin_version V s) = ?s"
    using assms by (simp add: pin_version_ok)
  have pin: "pin_version_attr ?s = Some (PinVer P)"
    by simp
  show "let s' = snd (pin_version V s) in
     if version_ge P (final_release [1, 46, 0])
     then get_device_type D s' = device_type_live D s' \<and>
          requests (snd (get_device_type D s')) = requests s' @ [API_get_status] \<and>
          fst (get_device_type D s') =
            (case fst (call D API_get_status s') of
               Inl e \<Rightarrow> Inl e
             | Inr r \<Rightarrow> PowerwallStatus_device_type D r)
     else get_device_type D s' = device_type_legacy D s' \<and>
          requests (snd (get_device_type D s')) = requests s' @ [API_get_device_type] \<and>
          fst (get_device_type D s') =
            (case fst (call D API_get_device_type s') of
               Inl e \<Rightarrow> Inl e
             | Inr r \<Rightarrow>
                 (case assert_attribute r ''device_type'' (Some ''device_type'') of
                    Inl e \<Rightarrow> Inl e
                  | Inr v \<Rightarrow> enum_of ''DeviceType'' (DeviceType_values D) v))"
    unfolding s' Let_def get_device_type_PinVer [OF pin]
    by (simp add: device_type_live_fst device_type_legacy_fst)
next
  fix e r p q d l
  assume "P = Version e r p q d l"
  then show "version_ge P (final_release [1, 46, 0]) \<longleftrightarrow>
         0 < e \<or>
         (e = 0 \<and>
          (tuple_lt (<) [1, 46] (rev (dropWhile (\<lambda>x. x = 0) (rev r))) \<or>
           (rev (dropWhile (\<lambda>x. x = 0) (rev r)) = [1, 46] \<and> p = None \<and>
            (q \<noteq> None \<or> d = None))))"
    by (simp only: version_ge_threshold)
next
  fix a b c
  assume "P = final_release [a, b, c]"
  then show "version_ge P (final_release [1, 46, 0]) \<longleftrightarrow> (1, 46, 0) \<le> (a, b, c)"
    by (simp only: version_ge_threshold_triple)
qed

text \<open>Pin 1.46.0 gives the live branch, pin 1.45.9 the legacy branch.\<close>

theorem get_device_type_pinned_witness:
  "version_parse ''1.46.0'' = Inr (final_release [1, 46, 0]) \<and>
   version_parse ''1.45.9'' = Inr (final_release [1, 45, 9]) \<and>
   requests (snd (get_device_type (example_deps ''1.47.0'' (Some ''teg''))
       (snd (pin_version ''1.46.0'' (Powerwall_init None ()))))) = [API_get_status] \<and>
   requests (snd (get_device_type (example_deps ''1.45.9'' None)
       (snd (pin_version ''1.45.9'' (Powerwall_init None ()))))) = [API_get_device_type]"
proof -
  let ?n = "Powerwall_init None () :: unit powerwall"
  have a: "version_parse ''1.46.0'' = Inr (final_release [1, 46, 0])"
    by (simp add: version_parse_eval)
  have b: "version_parse ''1.45.9'' = Inr (final_release [1, 45, 9])"
    by (simp add: version_parse_eval)
  have ga: "version_ge (final_release [1, 46, 0]) (final_release [1, 46, 0])"
    unfolding version_ge_threshold_triple by (simp add: less_eq_prod_def)
  have gb: "\<not> version_ge (final_release [1, 45, 9]) (final_release [1, 46, 0])"
    unfolding version_ge_threshold_triple by (simp add: less_eq_prod_def)
  have ra: "requests (snd (pin_version ''1.46.0'' ?n)) = []"
    by (simp add: pin_version_def a Powerwall_init_def)
  have rb: "requests (snd (pin_version ''1.45.9'' ?n)) = []"
    by (simp add: pin_version_def b Powerwall_init_def)
  from get_device_type_pinned [OF a, of ?n "example_deps ''1.47.0'' (Some ''teg'')"] ga
  have 1: "requests (snd (get_device_type (example_deps ''1.47.0'' (Some ''teg''))
       (snd (pin_version ''1.46.0'' ?n)))) = requests (snd (pin_version ''1.46.0'' ?n)) @ [API_get_status]"
    unfolding Let_def by simp
  from get_device_type_pinned [OF b, of ?n "example_deps ''1.45.9'' None"] gb
  have 2: "requests (snd (get_device_type (example_deps ''1.45.9'' None)
       (snd (pin_version ''1.45.9'' ?n)))) = requests (snd (pin_version ''1.45.9'' ?n)) @ [API_get_device_type]"
    unfolding Let_def by simp
  show ?thesis
    unfolding 1 2 ra rb using a b by simp
qed

section \<open>The attribute validator in get_charge\<close>

lemma call_fst: "api D c (api_state s) = (r, a) \<Longrightarrow> fst (call D c s) = r"
  by (simp add: call_def)

lemma after_fst_Inr: "fst p = Inr r \<Longrightarrow> fst (after f p) = f r"
  by (cases p) (simp add: after_def)

lemma assert_attribute_present:
  "map_of response attr = Some v \<Longrightarrow> v \<noteq> JNull \<Longrightarrow>
   assert_attribute (JObj response) attr url = Inr v"
  by (cases v) simp_all

lemma assert_attribute_missing:
  "map_of response attr = None \<or> map_of response attr = Some JNull \<Longrightarrow>
   assert_attribute (JObj response) attr url = Inl (MissingAttributeError attr url)"
  by auto

text \<open>
  Claim C4. Let the request for the state of energy return a mapping. When the mapping
  holds a value other than null under \<open>percentage\<close>, the validation returns exactly
  that value, and so does \<open>get_charge\<close>. When the key is absent or holds null, both
  fail with the MissingAttributeError that carries the key \<open>percentage\<close> and the
  category \<open>soe\<close>; neither returns null or a default.
\<close>

theorem get_charge_validates:
  assumes "api D API_get_system_status_soe (api_state s) = (Inr (JObj response), a)"
  shows "(\<forall>v. map_of response ''percentage'' = Some v \<and> v \<noteq> JNull \<longrightarrow>
            assert_attribute (JObj response) ''percentage'' (Some ''soe'') = Inr v \<and>
            fst (get_charge D s) = Inr v) \<and>
         (map_of response ''percentage'' = None \<or> map_of response ''percentage'' = Some JNull \<longrightarrow>
            assert_attribute (JObj response) ''percentage'' (Some ''soe'') =
              Inl (MissingAttributeError ''percentage'' (Some ''soe'')) \<and>
            fst (get_charge D s) = Inl (MissingAttributeError ''percentage'' (Some ''soe'')))"
proof -
  have "fst (call D API_get_system_status_soe s) = Inr (JObj response)"
    using assms by (rule call_fst)
  then have g: "fst (get_charge D s) = assert_attribute (JObj response) ''percentage'' (Some ''soe'')"
    unfolding get_charge_def by (rule after_fst_Inr)
  show ?thesis
    unfolding g using assert_attribute_present assert_attribute_missing by blast
qed

text \<open>The mapping with \<open>percentage\<close> 87.5 gives 87.5; the empty mapping gives the error.\<close>

theorem get_charge_validates_witness:
  "fst (get_charge (example_deps ''1.46.0'' None) (Powerwall_init None ())) = Inr (JFloat 87.5) \<and>
   fst (get_charge empty_deps (Powerwall_init None ())) =
     Inl (MissingAttributeError ''percentage'' (Some ''soe''))"
proof -
  have a: "api (example_deps ''1.46.0'' None) API_get_system_status_soe
             (api_state (Powerwall_init None ())) = (Inr (JObj [(''percentage'', JFloat 87.5)]), ())"
    by (simp add: example_deps_def example_api_def)
  have b: "api empty_deps API_get_system_status_soe (api_state (Powerwall_init None ())) =
             (Inr (JObj []), ())"
    by (simp add: empty_deps_def Powerwall_init_def)
  from get_charge_validates [OF a] get_charge_validates [OF b]
  show ?thesis by simp
qed

section \<open>Pinning a malformed version\<close>

text \<open>
  Claim C5. When the string does not parse to a version, \<open>pin_version\<close> fails with
  the InvalidVersion error, and the session, with the pin it held before (a version
  or none), is as it was.
\<close>

theorem pin_version_malformed:
  assumes "\<forall>v. version_parse vers \<noteq> Inr v"
  shows "pin_version vers s = (Inl (InvalidVersion vers), s) \<and>
         pin_version_attr (snd (pin_version vers s)) = pin_version_attr s"
proof -
  obtain e where e: "version_parse vers = Inl e"
    using assms by (cases "version_parse vers") auto
  then have "e = InvalidVersion vers"
    by (rule version_parse_error)
  with e show ?thesis
    by (simp add: pin_version_def)
qed

text \<open>The pin 1.45.9, and no pin, survive \<open>pin_version("not-a-version")\<close>.\<close>

theorem pin_version_malformed_witness:
  "(\<forall>v. version_parse ''not-a-version'' \<noteq> Inr v) \<and>
   pin_version ''not-a-version'' (snd (pin_version ''1.45.9'' (Powerwall_init None ()))) =
     (Inl (InvalidVersion ''not-a-version''),
      \<lparr>pin_version_attr = Some (PinVer (final_release [1, 45, 9])), api_state = (), requests = []\<rparr>) \<and>
   pin_version ''not-a-version'' (Powerwall_init None ()) =
     (Inl (InvalidVersion ''not-a-version''),
      \<lparr>pin_version_attr = None, api_state = (), requests = []\<rparr>)"
proof -
  have h: "\<forall>v. version_parse ''not-a-version'' \<noteq> Inr v"
    by (simp add: version_parse_eval)
  have b: "version_parse ''1.45.9'' = Inr (final_release [1, 45, 9])"
    by (simp add: version_parse_eval)
  from pin_version_malformed [OF h, of "snd (pin_version ''1.45.9'' (Powerwall_init None ()))"]
       pin_version_malformed [OF h, of "Powerwall_init None ()"]
  show ?thesis
    using h by (simp add: pin_version_def b Powerwall_init_def)
qed

section \<open>A pin given to the constructor\<close>

lemma enum_of_unknown:
  "x \<notin> set known \<Longrightarrow> enum_of cls known (JStr x) = Inl (UnknownEnumValueError cls (JStr x))"
  by (simp add: enum_of_def)

lemma call_snd:
  "api D c (api_state s) = (r, a) \<Longrightarrow>
   snd (call D c s) = s\<lparr>api_state := a, requests := requests s @ [c]\<rparr>"
  by (simp add: call_def)

text \<open>
  Claim C2, which asks that a pin given to the constructor act as the same pin set by
  \<open>pin_version\<close>. The constructor stores the string as it is, where \<open>pin_version\<close>
  stores the parsed version; \<open>get_device_type\<close> then compares a string with a version
  and raises TypeError, for every string and every device. With the pin 1.46.0 the
  session built with the pin raises, and the session pinned afterwards returns the
  device type of the status.
\<close>

theorem constructor_pin_not_parsed:
  "pin_version_attr (Powerwall_init (Some V) a) = Some (PinStr V) \<and>
   get_device_type D (Powerwall_init (Some V) a) = (Inl TypeError, Powerwall_init (Some V) a) \<and>
   fst (get_device_type (example_deps ''1.47.0'' (Some ''teg''))
          (Powerwall_init (Some ''1.46.0'') ())) = Inl TypeError \<and>
   fst (get_device_type (example_deps ''1.47.0'' (Some ''teg''))
          (snd (pin_version ''1.46.0'' (Powerwall_init None ())))) = Inr (Member ''DeviceType'' ''teg'')"
proof -
  have p: "pin_version_attr (Powerwall_init (Some V) a) = Some (PinStr V)"
    by (simp add: Powerwall_init_def)
  have t: "get_device_type D (Powerwall_init (Some V) a) = (Inl TypeError, Powerwall_init (Some V) a)"
    using p by (rule get_device_type_PinStr)
  have "pin_version_attr (Powerwall_init (Some ''1.46.0'') ()) = Some (PinStr ''1.46.0'')"
    by (simp add: Powerwall_init_def)
  then have c: "fst (get_device_type (example_deps ''1.47.0'' (Some ''teg''))
          (Powerwall_init (Some ''1.46.0'') ())) = Inl TypeError"
    by (simp add: get_device_type_PinStr)
  have l: "fst (get_device_type (example_deps ''1.47.0'' (Some ''teg''))
          (snd (pin_version ''1.46.0'' (Powerwall_init None ())))) = Inr (Member ''DeviceType'' ''teg'')"
    by (simp add: pin_version_def version_parse_threshold get_device_type_def pin_ge_def
        version_ge_def device_type_live_def get_status_def after_def call_def example_deps_def
        example_api_def example_status_def enum_of_def Powerwall_init_def)
  show ?thesis
    using p t c l by simp
qed

section \<open>Requests of get_device_type\<close>

text \<open>
  Claim C3 says that without a pin each call of \<open>get_device_type\<close> probes the firmware
  version and chooses its branch from it. On a device whose status reports 1.45.9,
  below 1.46.0, and holds no device type, the call without a pin issues the status
  request only and fails on the missing attribute, while the legacy branch, which it
  does not take, would have returned the device type.
\<close>

theorem no_pin_takes_live_counterexample:
  "fst (get_version (example_deps ''1.45.9'' None) (Powerwall_init None ())) = Inr (JStr ''1.45.9'') \<and>
   version_parse ''1.45.9'' = Inr (final_release [1, 45, 9]) \<and>
   \<not> version_ge (final_release [1, 45, 9]) (final_release [1, 46, 0]) \<and>
   requests (snd (get_device_type (example_deps ''1.45.9'' None) (Powerwall_init None ()))) =
     [API_get_status] \<and>
   fst (get_device_type (example_deps ''1.45.9'' None) (Powerwall_init None ())) =
     Inl (MissingAttributeError ''device_type'' None) \<and>
   fst (device_type_legacy (example_deps ''1.45.9'' None) (Powerwall_init None ())) =
     Inr (Member ''DeviceType'' ''hec'')"
proof -
  have v: "version_parse ''1.45.9'' = Inr (final_release [1, 45, 9])"
    by (simp add: version_parse_eval)
  have lt: "\<not> version_ge (final_release [1, 45, 9]) (final_release [1, 46, 0])"
    unfolding version_ge_threshold_triple by (simp add: less_eq_prod_def)
  have rest: "fst (get_version (example_deps ''1.45.9'' None) (Powerwall_init None ())) =
      Inr (JStr ''1.45.9'') \<and>
   requests (snd (get_device_type (example_deps ''1.45.9'' None) (Powerwall_init None ()))) =
     [API_get_status] \<and>
   fst (get_device_type (example_deps ''1.45.9'' None) (Powerwall_init None ())) =
     Inl (MissingAttributeError ''device_type'' None) \<and>
   fst (device_type_legacy (example_deps ''1.45.9'' None) (Powerwall_init None ())) =
     Inr (Member ''DeviceType'' ''hec'')"
    by (simp add: get_version_def after_def call_def example_deps_def example_api_def
        example_status_def Powerwall_init_def get_device_type_def device_type_live_def
        device_type_legacy_def get_status_def enum_of_def)
  from v lt rest show ?thesis by simp
qed

text \<open>
  Claim C3, amended. Without a pin every call of \<open>get_device_type\<close> takes the live
  branch and issues exactly one request, the status request, again at each call:
  nothing is kept from one call to the next, and the version that the device reports
  is not probed to choose the branch. Once a pin is set, a call issues no probe: the
  requests it issues, at most one, are the same whatever device answers; with a pin
  set by the pin operation, the one request is that of its branch.
\<close>

theorem get_device_type_requests:
  "(pin_version_attr s = None \<longrightarrow>
      get_device_type D s = device_type_live D s \<and>
      requests (snd (get_device_type D s)) = requests s @ [API_get_status] \<and>
      requests (snd (get_device_type D (snd (get_device_type D s)))) =
        requests s @ [API_get_status, API_get_status]) \<and>
   (\<forall>p. pin_version_attr s = Some p \<longrightarrow>
      (\<forall>D' a'. requests (snd (get_device_type D' (s\<lparr>api_state := a'\<rparr>))) =
         requests (snd (get_device_type D s))) \<and>
      length (requests (snd (get_device_type D s))) \<le> Suc (length (requests s))) \<and>
   (\<forall>P. pin_version_attr s = Some (PinVer P) \<longrightarrow>
      requests (snd (get_device_type D s)) =
        requests s @ [if version_ge P (final_release [1, 46, 0]) then API_get_status
                      else API_get_device_type])"
proof (intro conjI impI allI)
  assume n: "pin_version_attr s = None"
  show l: "get_device_type D s = device_type_live D s"
    using n by (rule get_device_type_None)
  show r: "requests (snd (get_device_type D s)) = requests s @ [API_get_status]"
    unfolding l by simp
  have "pin_version_attr (snd (get_device_type D s)) = None"
    using n by (simp add: get_device_type_pin)
  then have "get_device_type D (snd (get_device_type D s)) =
      device_type_live D (snd (get_device_type D s))"
    by (rule get_device_type_None)
  then show "requests (snd (get_device_type D (snd (get_device_type D s)))) =
      requests s @ [API_get_status, API_get_status]"
    using r by simp
next
  fix p D' a'
  assume "pin_version_attr s = Some p"
  then show "requests (snd (get_device_type D' (s\<lparr>api_state := a'\<rparr>))) =
      requests (snd (get_device_type D s))"
    by (cases p) (simp_all add: get_device_type_PinVer get_device_type_PinStr)
next
  fix p
  assume "pin_version_attr s = Some p"
  then show "length (requests (snd (get_device_type D s))) \<le> Suc (length (requests s))"
    by (cases p) (simp_all add: get_device_type_PinVer get_device_type_PinStr)
next
  fix P assume "pin_version_attr s = Some (PinVer P)"
  then show "requests (snd (get_device_type D s)) =
      requests s @ [if version_ge P (final_release [1, 46, 0]) then API_get_status
                    else API_get_device_type]"
    by (simp add: get_device_type_PinVer)
qed

text \<open>One call, two calls in a row, and a call with the pin 1.45.9 on two devices.\<close>

theorem get_device_type_requests_witness:
  "requests (snd (get_device_type (example_deps ''1.45.9'' None) (Powerwall_init None ()))) =
     [API_get_status] \<and>
   requests (snd (get_device_type (example_deps ''1.45.9'' None)
      (snd (get_device_type (example_deps ''1.45.9'' None) (Powerwall_init None ()))))) =
     [API_get_status, API_get_status] \<and>
   requests (snd (get_device_type (example_deps ''1.45.9'' None)
      \<lparr>pin_version_attr = Some (PinVer (final_release [1, 45, 9])), api_state = (),
       requests = []\<rparr>)) = [API_get_device_type] \<and>
   requests (snd (get_device_type (example_deps ''1.47.0'' (Some ''teg''))
      \<lparr>pin_version_attr = Some (PinVer (final_release [1, 45, 9])), api_state = (),
       requests = []\<rparr>)) = [API_get_device_type]"
proof -
  let ?D = "example_deps ''1.45.9'' None"
  let ?n = "Powerwall_init None ()"
  let ?v = "\<lparr>pin_version_attr = Some (PinVer (final_release [1, 45, 9])), api_state = (),
            requests = []\<rparr>"
  have n: "pin_version_attr ?n = None" and rn: "requests ?n = []"
    by (simp_all add: Powerwall_init_def)
  have v: "pin_version_attr ?v = Some (PinVer (final_release [1, 45, 9]))" and rv: "requests ?v = []"
    by simp_all
  have lt: "\<not> version_ge (final_release [1, 45, 9]) (final_release [1, 46, 0])"
    unfolding version_ge_threshold_triple by (simp add: less_eq_prod_def)
  from get_device_type_requests [of ?n ?D] n
  have 1: "requests (snd (get_device_type ?D ?n)) = requests ?n @ [API_get_status]"
    and 2: "requests (snd (get_device_type ?D (snd (get_device_type ?D ?n)))) =
      requests ?n @ [API_get_status, API_get_status]"
    by blast+
  from get_device_type_requests [of ?v ?D] v
  have 3: "requests (snd (get_device_type ?D ?v)) =
      requests ?v @ [if version_ge (final_release [1, 45, 9]) (final_release [1, 46, 0])
                     then API_get_status else API_get_device_type]"
    by blast
  from get_device_type_requests [of ?v ?D] v
  have "requests (snd (get_device_type (example_deps ''1.47.0'' (Some ''teg''))
      (?v\<lparr>api_state := ()\<rparr>))) = requests (snd (get_device_type ?D ?v))"
    by blast
  then have 4: "requests (snd (get_device_type (example_deps ''1.47.0'' (Some ''teg'')) ?v)) =
      requests (snd (get_device_type ?D ?v))"
    by simp
  show ?thesis
    unfolding 4 1 2 3 rn rv using lt by simp
qed

section \<open>Values outside an enumeration\<close>

lemma get_grid_status_unknown:
  assumes "api D API_get_system_status_grid_status (api_state s) = (Inr (JObj r), a)"
    and "map_of r ''grid_status'' = Some (JStr x)"
    and "x \<notin> set (GridStatus_values D)"
  shows "fst (get_grid_status D s) = Inl (UnknownEnumValueError ''GridStatus'' (JStr x))"
  using assms by (simp add: get_grid_status_def after_def call_def enum_of_unknown)

lemma get_operation_mode_unknown:
  assumes "api D API_get_operation (api_state s) = (Inr (JObj r), a)"
    and "map_of r ''real_mode'' = Some (JStr x)"
    and "x \<notin> set (OperationMode_values D)"
  shows "fst (get_operation_mode D s) = Inl (UnknownEnumValueError ''OperationMode'' (JStr x))"
  using assms by (simp add: get_operation_mode_def after_def call_def enum_of_unknown)

lemma device_type_legacy_unknown:
  assumes "api D API_get_device_type (api_state s) = (Inr (JObj r), a)"
    and "map_of r ''device_type'' = Some (JStr x)"
    and "x \<notin> set (DeviceType_values D)"
  shows "fst (device_type_legacy D s) = Inl (UnknownEnumValueError ''DeviceType'' (JStr x))"
  using assms by (simp add: device_type_legacy_def after_def call_def enum_of_unknown)

text \<open>
  Claim C6. When the response holds, in the field of an enumeration, a string outside
  the known values of that enumeration, the operation fails with the unknown-value
  error that names the enumeration and the string: the grid status in
  \<open>get_grid_status\<close>, the operating mode in \<open>get_operation_mode\<close>, and the device type
  on the legacy branch of \<open>get_device_type\<close> (a parsed pin below 1.46.0). It returns
  neither the string nor a default.
\<close>

theorem unknown_enum_value_fails:
  "(\<forall>r a x. api D API_get_system_status_grid_status (api_state s) = (Inr (JObj r), a) \<and>
        map_of r ''grid_status'' = Some (JStr x) \<and> x \<notin> set (GridStatus_values D) \<longrightarrow>
      fst (get_grid_status D s) = Inl (UnknownEnumValueError ''GridStatus'' (JStr x))) \<and>
   (\<forall>r a x. api D API_get_operation (api_state s) = (Inr (JObj r), a) \<and>
        map_of r ''real_mode'' = Some (JStr x) \<and> x \<notin> set (OperationMode_values D) \<longrightarrow>
      fst (get_operation_mode D s) = Inl (UnknownEnumValueError ''OperationMode'' (JStr x))) \<and>
   (\<forall>r a x P. pin_version_attr s = Some (PinVer P) \<and> \<not> version_ge P (final_release [1, 46, 0]) \<and>
        api D API_get_device_type (api_state s) = (Inr (JObj r), a) \<and>
        map_of r ''device_type'' = Some (JStr x) \<and> x \<notin> set (DeviceType_values D) \<longrightarrow>
      fst (get_device_type D s) = Inl (UnknownEnumValueError ''DeviceType'' (JStr x)))"
proof (intro conjI allI impI)
  fix r a x
  assume "api D API_get_system_status_grid_status (api_state s) = (Inr (JObj r), a) \<and>
        map_of r ''grid_status'' = Some (JStr x) \<and> x \<notin> set (GridStatus_values D)"
  then show "fst (get_grid_status D s) = Inl (UnknownEnumValueError ''GridStatus'' (JStr x))"
    by (elim conjE) (rule get_grid_status_unknown)
next
  fix r a x
  assume "api D API_get_operation (api_state s) = (Inr (JObj r), a) \<and>
        map_of r ''real_mode'' = Some (JStr x) \<and> x \<notin> set (OperationMode_values D)"
  then show "fst (get_operation_mode D s) = Inl (UnknownEnumValueError ''OperationMode'' (JStr x))"
    by (elim conjE) (rule get_operation_mode_unknown)
next
  fix r a x P
  assume h: "pin_version_attr s = Some (PinVer P) \<and> \<not> version_ge P (final_release [1, 46, 0]) \<and>
        api D API_get_device_type (api_state s) = (Inr (JObj r), a) \<and>
        map_of r ''device_type'' = Some (JStr x) \<and> x \<notin> set (DeviceType_values D)"
  then have "get_device_type D s = device_type_legacy D s"
    by (simp add: get_device_type_PinVer)
  moreover from h have "fst (device_type_legacy D s) =
      Inl (UnknownEnumValueError ''DeviceType'' (JStr x))"
    by (elim conjE) (rule device_type_legacy_unknown)
  ultimately show "fst (get_device_type D s) = Inl (UnknownEnumValueError ''DeviceType'' (JStr x))"
    by simp
qed

text \<open>A grid status, an operating mode and a device type that the example device does not know.\<close>

theorem unknown_enum_value_fails_witness:
  "fst (get_grid_status strict_deps (Powerwall_init None ())) =
     Inl (UnknownEnumValueError ''GridStatus'' (JStr ''SystemGridUnheardOf'')) \<and>
   fst (get_operation_mode strict_deps (Powerwall_init None ())) =
     Inl (UnknownEnumValueError ''OperationMode'' (JStr ''party'')) \<and>
   fst (get_device_type strict_deps (snd (pin_version ''1.45.9'' (Powerwall_init None ())))) =
     Inl (UnknownEnumValueError ''DeviceType'' (JStr ''hec''))"
proof -
  let ?n = "Powerwall_init None () :: unit powerwall"
  let ?v = "snd (pin_version ''1.45.9'' ?n)"
  have b: "version_parse ''1.45.9'' = Inr (final_release [1, 45, 9])"
    by (simp add: version_parse_eval)
  have g: "api strict_deps API_get_system_status_grid_status (api_state ?n) =
        (Inr (JObj [(''grid_status'', JStr ''SystemGridUnheardOf'')]), ()) \<and>
      map_of [(''grid_status'', JStr ''SystemGridUnheardOf'')] ''grid_status'' =
        Some (JStr ''SystemGridUnheardOf'') \<and>
      ''SystemGridUnheardOf'' \<notin> set (GridStatus_values strict_deps)"
    by (simp add: strict_deps_def example_deps_def example_api_def)
  have m: "api strict_deps API_get_operation (api_state ?n) =
        (Inr (JObj [(''real_mode'', JStr ''party'')]), ()) \<and>
      map_of [(''real_mode'', JStr ''party'')] ''real_mode'' = Some (JStr ''party'') \<and>
      ''party'' \<notin> set (OperationMode_values strict_deps)"
    by (simp add: strict_deps_def example_deps_def example_api_def)
  have d: "pin_version_attr ?v = Some (PinVer (final_release [1, 45, 9])) \<and>
      \<not> version_ge (final_release [1, 45, 9]) (final_release [1, 46, 0]) \<and>
      api strict_deps API_get_device_type (api_state ?v) =
        (Inr (JObj [(''device_type'', JStr ''hec'')]), ()) \<and>
      map_of [(''device_type'', JStr ''hec'')] ''device_type'' = Some (JStr ''hec'') \<and>
      ''hec'' \<notin> set (DeviceType_values strict_deps)"
    by (simp add: pin_version_def b version_ge_def strict_deps_def example_deps_def
        example_api_def)
  from unknown_enum_value_fails [of strict_deps ?n] g
  have 1: "fst (get_grid_status strict_deps ?n) =
      Inl (UnknownEnumValueError ''GridStatus'' (JStr ''SystemGridUnheardOf''))"
    by blast
  from unknown_enum_value_fails [of strict_deps ?n] m
  have 2: "fst (get_operation_mode strict_deps ?n) =
      Inl (UnknownEnumValueError ''OperationMode'' (JStr ''party''))"
    by blast
  from unknown_enum_value_fails [of strict_deps ?v] d
  have 3: "fst (get_device_type strict_deps ?v) =
      Inl (UnknownEnumValueError ''DeviceType'' (JStr ''hec''))"
    by blast
  from 1 2 3 show ?thesis by simp
qed

section \<open>Detecting and pinning the version\<close>

text \<open>
  Claim C7. When the status request returns a mapping whose \<open>version\<close> is a string that
  parses, \<open>detect_and_pin_version\<close> issues exactly one request, the status request,
  stores the parsed version as the pin and returns it, and \<open>get_pinned_version\<close>
  afterwards yields that version. No operation other than the constructor,
  \<open>pin_version\<close> and \<open>detect_and_pin_version\<close> changes the pin.
\<close>

theorem detect_and_pin_version_pins:
  assumes "api D API_get_status (api_state s) = (Inr (JObj status), a)"
    and "map_of status ''version'' = Some (JStr vers)"
    and "version_parse vers = Inr P"
  shows "detect_and_pin_version D s =
           (Inr (Some (PinVer P)),
            s\<lparr>api_state := a, requests := requests s @ [API_get_status],
              pin_version_attr := Some (PinVer P)\<rparr>) \<and>
         requests (snd (detect_and_pin_version D s)) = requests s @ [API_get_status] \<and>
         fst (get_pinned_version (snd (detect_and_pin_version D s))) = Some (PinVer P) \<and>
         (\<forall>op t. pin_version_attr (perform D op t) = pin_version_attr t)"
proof -
  have v: "get_version D s =
      (Inr (JStr vers), s\<lparr>api_state := a, requests := requests s @ [API_get_status]\<rparr>)"
    using assms(1,2) by (simp add: get_version_def after_def call_def)
  have d: "detect_and_pin_version D s =
           (Inr (Some (PinVer P)),
            s\<lparr>api_state := a, requests := requests s @ [API_get_status],
              pin_version_attr := Some (PinVer P)\<rparr>)"
    using assms(3) by (simp add: detect_and_pin_version_def v pin_version_def)
  show ?thesis
    unfolding d by (simp add: get_pinned_version_def perform_pin)
qed

text \<open>The example device that reports 1.47.0.\<close>

theorem detect_and_pin_version_pins_witness:
  "detect_and_pin_version (example_deps ''1.47.0'' (Some ''teg'')) (Powerwall_init None ()) =
     (Inr (Some (PinVer (final_release [1, 47, 0]))),
      \<lparr>pin_version_attr = Some (PinVer (final_release [1, 47, 0])), api_state = (),
       requests = [API_get_status]\<rparr>)"
proof -
  let ?D = "example_deps ''1.47.0'' (Some ''teg'')"
  let ?n = "Powerwall_init None () :: unit powerwall"
  have 1: "api ?D API_get_status (api_state ?n) =
      (Inr (JObj [(''version'', JStr ''1.47.0''), (''device_type'', JStr ''teg'')]), ())"
    by (simp add: example_deps_def example_api_def example_status_def)
  have 2: "map_of [(''version'', JStr ''1.47.0''), (''device_type'', JStr ''teg'')] ''version'' =
      Some (JStr ''1.47.0'')"
    by simp
  have 3: "version_parse ''1.47.0'' = Inr (final_release [1, 47, 0])"
    by (simp add: version_parse_eval)
  from detect_and_pin_version_pins [OF 1 2 3] show ?thesis
    by (simp add: Powerwall_init_def)
qed

section \<open>Logging out twice\<close>

text \<open>
  Claim C8. While the request reaches the device, \<open>logout\<close> on a session that is not
  authenticated completes without an error; the session is not authenticated
  afterwards, so that a second \<open>logout\<close> in a row completes as well.
\<close>

theorem logout_twice_completes:
  assumes "reachable"
  shows "(\<not> api_state s \<longrightarrow> fst (logout (logout_deps reachable D) s) = Inr ()) \<and>
         \<not> api_state (snd (logout (logout_deps reachable D) s)) \<and>
         fst (logout (logout_deps reachable D) (snd (logout (logout_deps reachable D) s))) = Inr ()"
  using assms
  by (simp add: logout_def after_def call_def logout_deps_def API_logout_spec_def
      server_logout_def split: prod.splits)

text \<open>A logout while logged out, and two in a row from a session that is logged in.\<close>

theorem logout_twice_completes_witness:
  "fst (logout (logout_deps True session_deps)
      \<lparr>pin_version_attr = None, api_state = False, requests = []\<rparr>) = Inr () \<and>
   fst (logout (logout_deps True session_deps)
      (snd (logout (logout_deps True session_deps)
         \<lparr>pin_version_attr = None, api_state = True, requests = []\<rparr>))) = Inr ()"
  using logout_twice_completes [of True
      "\<lparr>pin_version_attr = None, api_state = False, requests = []\<rparr>" session_deps]
    logout_twice_completes [of True
      "\<lparr>pin_version_attr = None, api_state = True, requests = []\<rparr>" session_deps]
  by simp

section \<open>Logging in\<close>

text \<open>
  Claim C9. For every email, password and flag, \<open>login\<close> is \<open>login_as\<close> with
  \<open>User.CUSTOMER\<close>: the same result, the same failure and the same session afterwards,
  after the same single request, which carries the value of \<open>User.CUSTOMER\<close>.
\<close>

theorem login_is_login_as_customer:
  "login D email password force_sm_off s =
     login_as D (UserMember (User_CUSTOMER D)) email password force_sm_off s \<and>
   requests (snd (login D email password force_sm_off s)) =
     requests s @ [API_login (User_CUSTOMER_value D) email password force_sm_off] \<and>
   requests (snd (login_as D (UserMember (User_CUSTOMER D)) email password force_sm_off s)) =
     requests s @ [API_login (User_CUSTOMER_value D) email password force_sm_off]"
  by (simp add: login_def login_as_def User_CUSTOMER_def)

section \<open>The frame of the pin\<close>

text \<open>
  Claim C10. Each of the operations login, login_as, logout, run, stop, get_charge,
  get_sitemaster, get_meters, get_grid_status, is_grid_services_active, get_site_info,
  set_site_name, get_status, get_device_type, get_serial_numbers, get_operation_mode,
  get_backup_reserved_percentage, get_solars, get_vin, get_version and
  get_pinned_version, on every session and with every argument, whether it returns or
  raises, leaves the pin as it was.
\<close>

theorem operations_keep_pin:
  "pin_version_attr (perform D op s) = pin_version_attr s"
  by (rule perform_pin)

end
